theory Spec2Isabelle
  imports Main "HOL-Library.Word"
begin

section \<open>Pixel data\<close>

text \<open>
  The program of \<^verbatim>\<open>opendlv-video-hsv-inspector.cpp\<close> is one function, \<^verbatim>\<open>main\<close>, that
  drives OpenCV. An 8-bit unsigned element (\<^verbatim>\<open>CV_8U\<close>) is an \<open>8 word\<close>, read with
  \<open>uint\<close>; a 16-bit signed element (\<^verbatim>\<open>CV_16S\<close>) is a \<open>16 word\<close>, read with \<open>sint\<close>.
  The trackbar variables (\<^verbatim>\<open>int minH\<close>, ..., \<^verbatim>\<open>int vSub\<close>) reach the library as
  \<^verbatim>\<open>cv::Scalar\<close> components; they are integers here.
\<close>

type_synonym uchar = "8 word"
type_synonym short = "16 word"

text \<open>
  A \<^verbatim>\<open>cv::Mat\<close>: its size and its elements in row-major order. A pixel of a
  multi-channel image is a tuple of its channels in memory order.
\<close>

record 'a Mat =
  rows :: nat
  cols :: nat
  data :: "'a list"

type_synonym px4 = "uchar \<times> uchar \<times> uchar \<times> uchar"
type_synonym px3 = "uchar \<times> uchar \<times> uchar"

definition Mat_map :: "('a \<Rightarrow> 'b) \<Rightarrow> 'a Mat \<Rightarrow> 'b Mat" where
  "Mat_map f m = \<lparr>rows = rows m, cols = cols m, data = map f (data m)\<rparr>"

definition same_size :: "'a Mat \<Rightarrow> 'b Mat \<Rightarrow> bool" where
  "same_size a b \<longleftrightarrow> rows a = rows b \<and> cols a = cols b"

text \<open>The default-constructed \<^verbatim>\<open>cv::Mat\<close> (\<^verbatim>\<open>cv::Mat filtered;\<close>).\<close>

definition empty_Mat :: "'a Mat" where
  "empty_Mat = \<lparr>rows = 0, cols = 0, data = []\<rparr>"

section \<open>Saturating element arithmetic of the library\<close>

text \<open>
  \<^verbatim>\<open>cv::saturate_cast<uchar>(int)\<close> and \<^verbatim>\<open>cv::saturate_cast<short>(int)\<close>: a value outside
  the target range becomes the nearest bound of the range.
\<close>

definition saturate_cast_uchar :: "int \<Rightarrow> uchar" where
  "saturate_cast_uchar v =
     (if 0 \<le> v \<and> v \<le> 255 then word_of_int v else if v > 0 then 255 else 0)"

definition saturate_cast_short :: "int \<Rightarrow> short" where
  "saturate_cast_short v =
     (if - 32768 \<le> v \<and> v \<le> 32767 then word_of_int v
      else if v > 0 then word_of_int 32767 else word_of_int (- 32768))"

text \<open>\<^verbatim>\<open>m.convertTo(m, CV_16S)\<close> on an 8-bit channel, \<^verbatim>\<open>m.convertTo(m, CV_8U)\<close> on a
  16-bit one: an element-wise saturating cast.\<close>

definition convertTo_16S :: "uchar Mat \<Rightarrow> short Mat" where
  "convertTo_16S m = Mat_map (\<lambda>v. saturate_cast_short (uint v)) m"

definition convertTo_8U :: "short Mat \<Rightarrow> uchar Mat" where
  "convertTo_8U m = Mat_map (\<lambda>x. saturate_cast_uchar (sint x)) m"

text \<open>
  The matrix expressions of lines 124 to 126 on a \<^verbatim>\<open>CV_16S\<close> channel. \<^verbatim>\<open>m - s\<close> and
  \<^verbatim>\<open>m + s\<close> with a scalar compute in \<^verbatim>\<open>int\<close> and store through
  \<^verbatim>\<open>saturate_cast<short>\<close>; \<^verbatim>\<open>cv::max(m, s)\<close> and \<^verbatim>\<open>cv::min(m, s)\<close> compare each element
  with the scalar converted to the element type.
\<close>

definition cv_sub :: "short Mat \<Rightarrow> int \<Rightarrow> short Mat" where
  "cv_sub m s = Mat_map (\<lambda>x. saturate_cast_short (sint x - s)) m"

definition cv_add :: "short Mat \<Rightarrow> int \<Rightarrow> short Mat" where
  "cv_add m s = Mat_map (\<lambda>x. saturate_cast_short (sint x + s)) m"

definition cv_max :: "short Mat \<Rightarrow> int \<Rightarrow> short Mat" where
  "cv_max m s = Mat_map (\<lambda>x. if sint x < sint (saturate_cast_short s)
                              then saturate_cast_short s else x) m"

definition cv_min :: "short Mat \<Rightarrow> int \<Rightarrow> short Mat" where
  "cv_min m s = Mat_map (\<lambda>x. if sint (saturate_cast_short s) < sint x
                              then saturate_cast_short s else x) m"

section \<open>The bias stage (lines 120 to 130)\<close>

text \<open>
  One channel through lines 120 to 130: widened to \<^verbatim>\<open>CV_16S\<close>, then
  \<^verbatim>\<open>cv::min(cv::max(ch - sub, 0) + add, upper)\<close>, then narrowed to \<^verbatim>\<open>CV_8U\<close>. The source
  runs the widening loop over the three channels, then the three expressions, then the
  narrowing loop; the channels do not interact, so the order per channel is the same.
\<close>

definition adjust :: "int \<Rightarrow> int \<Rightarrow> int \<Rightarrow> short Mat \<Rightarrow> short Mat" where
  "adjust upper sub add ch = cv_min (cv_add (cv_max (cv_sub ch sub) 0) add) upper"

definition bias_channel :: "int \<Rightarrow> int \<Rightarrow> int \<Rightarrow> uchar Mat \<Rightarrow> uchar Mat" where
  "bias_channel upper sub add ch = convertTo_8U (adjust upper sub add (convertTo_16S ch))"

text \<open>The claim's formula: one saturating clip of \<open>v - sub + add\<close> to \<open>[0, upper]\<close>.\<close>

definition spec_clip :: "int \<Rightarrow> int \<Rightarrow> int" where
  "spec_clip upper x = (if x < 0 then 0 else if x > upper then upper else x)"

definition spec_bias :: "int \<Rightarrow> int \<Rightarrow> int \<Rightarrow> int \<Rightarrow> int" where
  "spec_bias upper sub add v = spec_clip upper (v - sub + add)"

section \<open>Colour conversion (lines 115 and 140)\<close>

text \<open>
  \<^verbatim>\<open>cvtColor(img, imgHSV, cv::COLOR_BGR2HSV)\<close> on the four-channel 8-bit image. The
  library's 8-bit conversion is fixed-point integer code: with blue index 0 and four
  source channels it reads \<^verbatim>\<open>b = src[0]\<close>, \<^verbatim>\<open>g = src[1]\<close>, \<^verbatim>\<open>r = src[2]\<close> of every pixel
  and never reads \<^verbatim>\<open>src[3]\<close>. Its two tables hold
  \<^verbatim>\<open>saturate_cast<int>((255 << 12)/(1.*i))\<close> and \<^verbatim>\<open>saturate_cast<int>((180 << 12)/(6.*i))\<close>,
  the nearest integers of the quotients (no quotient with \<open>i\<close> below 256 lies halfway
  between two integers). \<^verbatim>\<open>>> 12\<close> on an \<^verbatim>\<open>int\<close> is the floor of the division by 4096.
\<close>

definition cvRound_div :: "int \<Rightarrow> int \<Rightarrow> int" where
  "cvRound_div a b = (2 * a + b) div (2 * b)"

definition sdiv_table :: "int \<Rightarrow> int" where
  "sdiv_table i = (if i = 0 then 0 else cvRound_div (255 * 4096) i)"

definition hdiv_table180 :: "int \<Rightarrow> int" where
  "hdiv_table180 i = (if i = 0 then 0 else cvRound_div (180 * 4096) (6 * i))"

definition RGB2HSV_b :: "int \<Rightarrow> int \<Rightarrow> int \<Rightarrow> px3" where
  "RGB2HSV_b b g r =
     (let v = max (max b g) r;
          vmin = min (min b g) r;
          diff = v - vmin;
          s = (diff * sdiv_table v + 2048) div 4096;
          h0 = (if v = r then g - b
                else if v = g then b - r + 2 * diff
                else r - g + 4 * diff);
          h1 = (h0 * hdiv_table180 diff + 2048) div 4096;
          h = (if h1 < 0 then h1 + 180 else h1)
      in (saturate_cast_uchar h, word_of_int s, word_of_int v))"

definition cvtColor_BGR2HSV :: "px4 Mat \<Rightarrow> px3 Mat" where
  "cvtColor_BGR2HSV img =
     Mat_map (\<lambda>(c0, c1, c2, c3). RGB2HSV_b (uint c0) (uint c1) (uint c2)) img"

text \<open>
  \<^verbatim>\<open>cv::cvtColor(imgHSV, adjustedBGR, cv::COLOR_HSV2BGR)\<close> computes each pixel in
  floating point inside the library; it is a function of the pixel alone, taken here as
  the parameter \<open>hsv2bgr\<close>.
\<close>

definition cvtColor_HSV2BGR :: "(px3 \<Rightarrow> px3) \<Rightarrow> px3 Mat \<Rightarrow> px3 Mat" where
  "cvtColor_HSV2BGR hsv2bgr img = Mat_map hsv2bgr img"

section \<open>Channels, mask and masked copy\<close>

text \<open>An assertion of the library that fails throws a \<^verbatim>\<open>cv::Exception\<close>.\<close>

datatype cv_Exception = Assertion_failed string

text \<open>\<^verbatim>\<open>cv::split(imgHSV, hsvChannels)\<close>: the three planes of a three-channel image.\<close>

definition cv_split :: "px3 Mat \<Rightarrow> uchar Mat \<times> uchar Mat \<times> uchar Mat" where
  "cv_split m = (Mat_map fst m, Mat_map (fst \<circ> snd) m, Mat_map (snd \<circ> snd) m)"

text \<open>\<^verbatim>\<open>cv::merge(hsvChannels, imgHSV)\<close>: the planes must have one size.\<close>

definition cv_merge :: "uchar Mat \<times> uchar Mat \<times> uchar Mat \<Rightarrow> cv_Exception + px3 Mat" where
  "cv_merge chs =
     (case chs of (a, b, c) \<Rightarrow>
        if same_size a b \<and> same_size a c
        then Inr \<lparr>rows = rows a, cols = cols a, data = zip (data a) (zip (data b) (data c))\<rparr>
        else Inl (Assertion_failed ''merge''))"

text \<open>
  \<^verbatim>\<open>cv::inRange(src, lowerb, upperb, dst)\<close> with scalar bounds: an element of \<open>dst\<close> is
  255 when every channel of the pixel lies between its two bounds, both included, and 0
  otherwise.
\<close>

definition inRange :: "px3 Mat \<Rightarrow> int \<times> int \<times> int \<Rightarrow> int \<times> int \<times> int \<Rightarrow> uchar Mat" where
  "inRange src lowerb upperb =
     (case lowerb of (l0, l1, l2) \<Rightarrow> case upperb of (u0, u1, u2) \<Rightarrow>
        Mat_map (\<lambda>(p0, p1, p2).
           if l0 \<le> uint p0 \<and> uint p0 \<le> u0 \<and>
              l1 \<le> uint p1 \<and> uint p1 \<le> u1 \<and>
              l2 \<le> uint p2 \<and> uint p2 \<le> u2
           then 255 else 0) src)"

text \<open>
  \<^verbatim>\<open>src.copyTo(dst, mask)\<close>: the mask must have the size of \<open>src\<close>. A destination of
  another size is reallocated and filled with zeros first; then the pixels whose mask
  element is not zero are copied, the others keep the destination's value.
\<close>

definition copyTo :: "px3 Mat \<Rightarrow> px3 Mat \<Rightarrow> uchar Mat \<Rightarrow> cv_Exception + px3 Mat" where
  "copyTo src dst msk =
     (if \<not> same_size src msk then Inl (Assertion_failed ''copyTo'')
      else
        let old = (if same_size dst src \<and> length (data dst) = length (data src)
                      then data dst
                      else replicate (length (data src)) (0, 0, 0))
        in Inr \<lparr>rows = rows src, cols = cols src,
                data = map (\<lambda>(p, q, m). if m \<noteq> 0 then p else q)
                           (zip (data src) (zip old (data msk)))\<rparr>)"

section \<open>One pass of the loop body (lines 114 to 147)\<close>

text \<open>The twelve trackbar variables, as they stand when the loop body reads them.\<close>

record controls =
  minH :: int
  maxH :: int
  minS :: int
  maxS :: int
  minV :: int
  maxV :: int
  hAdd :: int
  sAdd :: int
  vAdd :: int
  hSub :: int
  sSub :: int
  vSub :: int

text \<open>Lines 66 to 93: the initial values of the trackbar variables.\<close>

definition initial_controls :: controls where
  "initial_controls =
     \<lparr>minH = 0, maxH = 179, minS = 0, maxS = 255, minV = 0, maxV = 255,
      hAdd = 0, sAdd = 0, vAdd = 0, hSub = 0, sSub = 0, vSub = 0\<rparr>"

text \<open>Lines 117 to 132: split, bias each channel, merge.\<close>

definition applyBias :: "controls \<Rightarrow> px3 Mat \<Rightarrow> cv_Exception + px3 Mat" where
  "applyBias c imgHSV =
     (case cv_split imgHSV of (ch0, ch1, ch2) \<Rightarrow>
        cv_merge (bias_channel 179 (hSub c) (hAdd c) ch0,
                  bias_channel 255 (sSub c) (sAdd c) ch1,
                  bias_channel 255 (vSub c) (vAdd c) ch2))"

text \<open>Lines 134 to 136: the mask of the biased image.\<close>

definition computeMask :: "controls \<Rightarrow> px3 Mat \<Rightarrow> uchar Mat" where
  "computeMask c imgHSV = inRange imgHSV (minH c, minS c, minV c) (maxH c, maxS c, maxV c)"

text \<open>Lines 142 to 144: \<^verbatim>\<open>cv::Mat filtered; adjustedBGR.copyTo(filtered, mask);\<close>.\<close>

definition composite :: "px3 Mat \<Rightarrow> uchar Mat \<Rightarrow> cv_Exception + px3 Mat" where
  "composite src msk = copyTo src empty_Mat msk"

text \<open>Lines 114 to 136: the biased image and its mask.\<close>

definition mask_stage :: "controls \<Rightarrow> px4 Mat \<Rightarrow> cv_Exception + px3 Mat \<times> uchar Mat" where
  "mask_stage c img =
     (case applyBias c (cvtColor_BGR2HSV img) of
        Inl e \<Rightarrow> Inl e
      | Inr imgHSV \<Rightarrow> Inr (imgHSV, computeMask c imgHSV))"

text \<open>Lines 114 to 144: the two images that lines 146 and 147 show.\<close>

record views =
  mask_only :: "uchar Mat"
  adjusted_and_masked :: "px3 Mat"

definition process :: "(px3 \<Rightarrow> px3) \<Rightarrow> controls \<Rightarrow> px4 Mat \<Rightarrow> cv_Exception + views" where
  "process hsv2bgr c img =
     (case mask_stage c img of
        Inl e \<Rightarrow> Inl e
      | Inr (imgHSV, msk) \<Rightarrow>
          (case composite (cvtColor_HSV2BGR hsv2bgr imgHSV) msk of
             Inl e' \<Rightarrow> Inl e'
           | Inr filtered \<Rightarrow> Inr \<lparr>mask_only = msk, adjusted_and_masked = filtered\<rparr>))"

text \<open>
  The positions that the trackbars of lines 68 to 93 allow: from 0 to the count given
  to \<^verbatim>\<open>cvCreateTrackbar\<close>, 179 for the hue and 255 for saturation and value.
\<close>

definition bias_in_domain :: "controls \<Rightarrow> bool" where
  "bias_in_domain c \<longleftrightarrow>
     0 \<le> hAdd c \<and> hAdd c \<le> 179 \<and> 0 \<le> hSub c \<and> hSub c \<le> 179 \<and>
     0 \<le> sAdd c \<and> sAdd c \<le> 255 \<and> 0 \<le> sSub c \<and> sSub c \<le> 255 \<and>
     0 \<le> vAdd c \<and> vAdd c \<le> 255 \<and> 0 \<le> vSub c \<and> vSub c \<le> 255"

text \<open>An image of the inspection space: the first channel is at most 179.\<close>

definition hue_in_domain :: "px3 \<Rightarrow> bool" where
  "hue_in_domain p \<longleftrightarrow> uint (fst p) \<le> 179"

text \<open>A \<^verbatim>\<open>cv::Mat\<close> holds as many elements as its size says.\<close>

definition well_formed :: "'a Mat \<Rightarrow> bool" where
  "well_formed m \<longleftrightarrow> length (data m) = rows m * cols m"

section \<open>The program: \<^verbatim>\<open>main\<close>\<close>

text \<open>
  What the program does to its surroundings, in program order: a line written to
  \<^verbatim>\<open>std::cerr\<close> or \<^verbatim>\<open>std::clog\<close>, the construction of the \<^verbatim>\<open>cluon::SharedMemory\<close>
  (the attach), \<^verbatim>\<open>lock()\<close> and \<^verbatim>\<open>unlock()\<close> on it, a call into OpenCV by name, an
  image handed to \<^verbatim>\<open>cv::imshow\<close>, and an exception that nothing catches.
\<close>

datatype shown = Gray "uchar Mat" | Colour "px3 Mat"

datatype event =
    Cerr string
  | Clog_attached
  | New_SharedMemory string
  | Lock
  | Unlock
  | Call string
  | Imshow string shown
  | Throw

text \<open>How the process ends: \<^verbatim>\<open>return retCode\<close>, or \<^verbatim>\<open>std::terminate\<close> after an
  uncaught exception.\<close>

datatype outcome = Exit int | Terminate

text \<open>
  \<^verbatim>\<open>std::stoi\<close>: leading white space, an optional sign, then decimal digits; what
  follows the digits is ignored. \<open>None\<close> stands for its two exceptions,
  \<^verbatim>\<open>std::invalid_argument\<close> (no digit) and \<^verbatim>\<open>std::out_of_range\<close> (not an \<^verbatim>\<open>int\<close>).
\<close>

definition isspace :: "char \<Rightarrow> bool" where
  "isspace c \<longleftrightarrow> c \<in> set [CHR '' '', CHR 0x09, CHR 0x0A, CHR 0x0B, CHR 0x0C, CHR 0x0D]"

definition isdigit :: "char \<Rightarrow> bool" where
  "isdigit c \<longleftrightarrow> c \<in> set ''0123456789''"

definition digits_value :: "string \<Rightarrow> int" where
  "digits_value ds = foldl (\<lambda>a c. 10 * a + (of_char c - 48)) 0 ds"

definition stoi :: "string \<Rightarrow> int option" where
  "stoi str =
     (let s1 = dropWhile isspace str;
          neg = (s1 \<noteq> [] \<and> hd s1 = CHR ''-'');
          s2 = (if s1 \<noteq> [] \<and> (hd s1 = CHR ''-'' \<or> hd s1 = CHR ''+'') then tl s1 else s1);
          ds = takeWhile isdigit s2;
          n = (if neg then - digits_value ds else digits_value ds)
      in if ds = [] then None
         else if n < - 2147483648 \<or> 2147483647 < n then None
         else Some n)"

text \<open>Lines 34 to 39: the usage text.\<close>

definition usage :: "string \<Rightarrow> event list" where
  "usage argv0 =
     [Cerr (argv0 @ '' attaches to a shared memory area containing an ARGB image and transform it to HSV color space for inspection.''),
      Cerr (''Usage:   '' @ argv0 @ '' --name=<name of shared memory area> --width=<W> --height=<H>''),
      Cerr ''         --name:   name of the shared memory area to attach'',
      Cerr ''         --width:  width of the frame'',
      Cerr ''         --height: height of the frame'',
      Cerr (''Example: '' @ argv0 @ '' --name=img.argb --width=640 --height=480'')]"

text \<open>Lines 57 to 93, once the image header exists: the first lock, the data pointer
  set under it, the window and the twelve trackbars.\<close>

definition startup :: "event list" where
  "startup =
     [Lock, Call ''imageData'', Unlock, Call ''namedWindow''] @
     replicate 12 (Call ''cvCreateTrackbar'')"

text \<open>
  One turn of the loop reads its surroundings three times: the key that
  \<^verbatim>\<open>cv::waitKey(10)\<close> returns, the trackbar variables as the window system left them,
  and the pixels that the image header shows of the shared memory.
\<close>

record tick =
  key :: int
  sliders :: controls
  pixels :: "px4 list"

text \<open>The calls of lines 115 to 132, of line 136, and of lines 140 to 144.\<close>

definition bias_calls :: "event list" where
  "bias_calls =
     [Call ''cvtColor'', Call ''split''] @ replicate 3 (Call ''convertTo'') @
     concat (replicate 3 [Call ''operator-'', Call ''max'', Call ''operator+'', Call ''min'']) @
     replicate 3 (Call ''convertTo'') @ [Call ''merge'']"

definition mask_calls :: "event list" where
  "mask_calls = [Call ''inRange'', Call ''cvtColor'', Call ''copyTo'']"

text \<open>
  Lines 97 to 147, the body of the loop, with whether it reached its end. The image
  \<open>img\<close> is the header over the shared memory (\<^verbatim>\<open>cv::cvarrToMat(iplimage)\<close> copies no
  pixel): \<open>HEIGHT\<close> rows and \<open>WIDTH\<close> columns.
\<close>

definition iteration :: "(px3 \<Rightarrow> px3) \<Rightarrow> nat \<Rightarrow> nat \<Rightarrow> tick \<Rightarrow> event list \<times> bool" where
  "iteration hsv2bgr HEIGHT WIDTH t =
     (let img = \<lparr>rows = HEIGHT, cols = WIDTH, data = pixels t\<rparr>;
          c = sliders t;
          acquire = [Lock, Call ''cvarrToMat'', Unlock]
      in case process hsv2bgr c img of
           Inl (Assertion_failed f) \<Rightarrow>
             (acquire @ (if f = ''merge'' then bias_calls else bias_calls @ mask_calls) @
              [Throw], False)
         | Inr v \<Rightarrow>
             (acquire @ bias_calls @ mask_calls @
              [Imshow ''Mask only'' (Gray (mask_only v)),
               Imshow ''Adjusted and masked'' (Colour (adjusted_and_masked v))], True))"

text \<open>
  Line 96, \<^verbatim>\<open>while (cv::waitKey(10))\<close>, over a script of ticks. The loop is left when a
  key is 0; a body that throws ends the process. When the script runs out the loop is
  still running: the result is \<open>None\<close>.
\<close>

datatype loop_end = Left_loop | Threw

fun loop :: "(px3 \<Rightarrow> px3) \<Rightarrow> nat \<Rightarrow> nat \<Rightarrow> tick list \<Rightarrow> event list \<times> loop_end option" where
  "loop hsv2bgr HEIGHT WIDTH [] = ([], None)"
| "loop hsv2bgr HEIGHT WIDTH (t # ts) =
     (if key t = 0 then ([Call ''waitKey''], Some Left_loop)
      else case iteration hsv2bgr HEIGHT WIDTH t of
             (evs, False) \<Rightarrow> (Call ''waitKey'' # evs, Some Threw)
           | (evs, True) \<Rightarrow>
               (case loop hsv2bgr HEIGHT WIDTH ts of
                  (rest, r) \<Rightarrow> (Call ''waitKey'' # evs @ rest, r)))"

text \<open>
  \<^verbatim>\<open>main\<close>. \<open>commandlineArguments\<close> is the map that \<^verbatim>\<open>cluon::getCommandlineArguments\<close>
  returns, \<open>valid\<close> what \<^verbatim>\<open>sharedMemory->valid()\<close> answers after the attach. The result
  is the trace of events and how the process ended (\<open>None\<close>: the loop is still running
  at the end of the script). \<^verbatim>\<open>cvCreateImageHeader\<close> rejects a negative size.
\<close>

definition main ::
  "(px3 \<Rightarrow> px3) \<Rightarrow> string \<Rightarrow> (string \<rightharpoonup> string) \<Rightarrow> bool \<Rightarrow> tick list
     \<Rightarrow> event list \<times> outcome option" where
  "main hsv2bgr argv0 commandlineArguments valid ticks =
     (case (commandlineArguments ''name'', commandlineArguments ''width'',
            commandlineArguments ''height'') of
        (Some NAME, Some width_arg, Some height_arg) \<Rightarrow>
          (case stoi width_arg of
             None \<Rightarrow> ([Throw], Some Terminate)
           | Some w \<Rightarrow>
               (case stoi height_arg of
                  None \<Rightarrow> ([Throw], Some Terminate)
                | Some h \<Rightarrow>
                    let WIDTH = (word_of_int w :: 32 word);
                        HEIGHT = (word_of_int h :: 32 word)
                    in if valid then
                         if sint WIDTH < 0 \<or> sint HEIGHT < 0
                         then ([New_SharedMemory NAME, Clog_attached,
                                Call ''cvCreateImageHeader'', Throw], Some Terminate)
                         else
                           (case loop hsv2bgr (nat (sint HEIGHT)) (nat (sint WIDTH)) ticks of
                              (evs, None) \<Rightarrow>
                                ([New_SharedMemory NAME, Clog_attached,
                                  Call ''cvCreateImageHeader''] @ startup @ evs, None)
                            | (evs, Some Threw) \<Rightarrow>
                                ([New_SharedMemory NAME, Clog_attached,
                                  Call ''cvCreateImageHeader''] @ startup @ evs, Some Terminate)
                            | (evs, Some Left_loop) \<Rightarrow>
                                ([New_SharedMemory NAME, Clog_attached,
                                  Call ''cvCreateImageHeader''] @ startup @ evs @
                                 [Call ''cvReleaseImageHeader''], Some (Exit 0)))
                       else ([New_SharedMemory NAME], Some (Exit 0))))
      | _ \<Rightarrow> (usage argv0, Some (Exit 1)))"

text \<open>
  The lock along a trace: whether it is held after the trace, and the events that
  happen while it is held (\<open>held\<close> is the state before the first event).
\<close>

fun held_after :: "bool \<Rightarrow> event list \<Rightarrow> bool" where
  "held_after held [] = held"
| "held_after held (Lock # es) = held_after True es"
| "held_after held (Unlock # es) = held_after False es"
| "held_after held (e # es) = held_after held es"

fun under_lock :: "bool \<Rightarrow> event list \<Rightarrow> event list" where
  "under_lock held [] = []"
| "under_lock held (Lock # es) = under_lock True es"
| "under_lock held (Unlock # es) = under_lock False es"
| "under_lock held (e # es) = (if held then e # under_lock held es else under_lock held es)"

text \<open>The events of the loop: every call of lines 96 to 147 and both displays.\<close>

definition in_loop :: "event \<Rightarrow> bool" where
  "in_loop e \<longleftrightarrow>
     (case e of Call f \<Rightarrow> f \<in> set [''waitKey'', ''cvarrToMat'', ''cvtColor'', ''split'',
                                     ''convertTo'', ''operator-'', ''max'', ''operator+'',
                                     ''min'', ''merge'', ''inRange'', ''copyTo'']
              | Imshow w i \<Rightarrow> True
              | _ \<Rightarrow> False)"

section \<open>The stages, element by element\<close>

text \<open>
  Every stage above works on each element alone. These are the element functions of
  \<open>adjust\<close>, \<open>bias_channel\<close> and \<open>applyBias\<close>; the lemmas \<open>data_adjust\<close>,
  \<open>data_bias_channel\<close> and \<open>applyBias_eq\<close> below prove that the stages compute them.
\<close>

definition adjust_value :: "int \<Rightarrow> int \<Rightarrow> int \<Rightarrow> short \<Rightarrow> short" where
  "adjust_value upper sub add x =
     (let a = saturate_cast_short (sint x - sub);
          b = (if sint a < sint (saturate_cast_short 0) then saturate_cast_short 0 else a);
          c = saturate_cast_short (sint b + add)
      in if sint (saturate_cast_short upper) < sint c then saturate_cast_short upper else c)"

definition bias_value :: "int \<Rightarrow> int \<Rightarrow> int \<Rightarrow> uchar \<Rightarrow> uchar" where
  "bias_value upper sub add v =
     saturate_cast_uchar (sint (adjust_value upper sub add (saturate_cast_short (uint v))))"

definition bias_pixel :: "controls \<Rightarrow> px3 \<Rightarrow> px3" where
  "bias_pixel c p =
     (case p of (h, s, v) \<Rightarrow>
        (bias_value 179 (hSub c) (hAdd c) h,
         bias_value 255 (sSub c) (sAdd c) s,
         bias_value 255 (vSub c) (vAdd c) v))"

text \<open>The element function of \<open>computeMask\<close> (lemma \<open>computeMask_eq\<close>).\<close>

definition mask_value :: "controls \<Rightarrow> px3 \<Rightarrow> uchar" where
  "mask_value c p =
     (case p of (p0, p1, p2) \<Rightarrow>
        if minH c \<le> uint p0 \<and> uint p0 \<le> maxH c \<and>
           minS c \<le> uint p1 \<and> uint p1 \<le> maxS c \<and>
           minV c \<le> uint p2 \<and> uint p2 \<le> maxV c
        then 255 else 0)"

text \<open>Two pixels of the shared memory with the same first three bytes.\<close>

definition same_colour_bytes :: "px4 \<Rightarrow> px4 \<Rightarrow> bool" where
  "same_colour_bytes p q \<longleftrightarrow>
     fst p = fst q \<and> fst (snd p) = fst (snd q) \<and> fst (snd (snd p)) = fst (snd (snd q))"

section \<open>The stages compute their element functions\<close>

lemma sint_saturate_cast_short:
  "sint (saturate_cast_short v) =
     (if v < - 32768 then - 32768 else if v > 32767 then 32767 else v)"
  by (simp add: saturate_cast_short_def signed_of_int signed_take_bit_int_eq_self)

lemma sint_saturate_cast_short_id:
  "- 32768 \<le> k \<Longrightarrow> k \<le> 32767 \<Longrightarrow> sint (saturate_cast_short k) = k"
  by (simp add: sint_saturate_cast_short)

lemma uint_saturate_cast_uchar:
  "uint (saturate_cast_uchar v) = (if v < 0 then 0 else if v > 255 then 255 else v)"
  by (simp add: saturate_cast_uchar_def uint_word_of_int_eq take_bit_int_eq_self)

lemma uint_saturate_cast_uchar_id:
  "0 \<le> k \<Longrightarrow> k \<le> 255 \<Longrightarrow> uint (saturate_cast_uchar k) = k"
  by (simp add: uint_saturate_cast_uchar)

lemma uint_uchar_bound: "uint (v :: uchar) \<le> 255"
  using uint_lt2p [of v] by simp

lemma uint_uchar_nonneg: "0 \<le> uint (v :: uchar)"
  by simp

lemma widened_value:
  "sint (saturate_cast_short (uint (v :: uchar))) = uint v"
proof -
  have "- 32768 \<le> uint v" using uint_ge_0 [of v] by linarith
  moreover have "uint v \<le> 32767" using uint_uchar_bound [of v] by linarith
  ultimately show ?thesis by (rule sint_saturate_cast_short_id)
qed

lemma data_Mat_map [simp]: "data (Mat_map f m) = map f (data m)"
  by (simp add: Mat_map_def)

lemma rows_Mat_map [simp]: "rows (Mat_map f m) = rows m"
  by (simp add: Mat_map_def)

lemma cols_Mat_map [simp]: "cols (Mat_map f m) = cols m"
  by (simp add: Mat_map_def)

lemma data_convertTo_16S:
  "data (convertTo_16S m) = map (\<lambda>v. saturate_cast_short (uint v)) (data m)"
  by (simp add: convertTo_16S_def)

lemma data_convertTo_8U:
  "data (convertTo_8U m) = map (\<lambda>x. saturate_cast_uchar (sint x)) (data m)"
  by (simp add: convertTo_8U_def)

lemma data_cv_sub: "data (cv_sub m s) = map (\<lambda>x. saturate_cast_short (sint x - s)) (data m)"
  by (simp add: cv_sub_def)

lemma data_cv_add: "data (cv_add m s) = map (\<lambda>x. saturate_cast_short (sint x + s)) (data m)"
  by (simp add: cv_add_def)

lemma data_cv_max:
  "data (cv_max m s) =
     map (\<lambda>x. if sint x < sint (saturate_cast_short s) then saturate_cast_short s else x) (data m)"
  by (simp add: cv_max_def)

lemma data_cv_min:
  "data (cv_min m s) =
     map (\<lambda>x. if sint (saturate_cast_short s) < sint x then saturate_cast_short s else x) (data m)"
  by (simp add: cv_min_def)

lemma data_adjust:
  "data (adjust upper sub add ch) = map (adjust_value upper sub add) (data ch)"
  by (simp add: adjust_def data_cv_min data_cv_add data_cv_max data_cv_sub adjust_value_def
      Let_def)

lemma data_bias_channel:
  "data (bias_channel upper sub add ch) = map (bias_value upper sub add) (data ch)"
  by (simp add: bias_channel_def data_convertTo_8U data_convertTo_16S data_adjust
      bias_value_def)

lemma rows_bias_channel [simp]: "rows (bias_channel upper sub add ch) = rows ch"
  by (simp add: bias_channel_def convertTo_8U_def convertTo_16S_def adjust_def cv_min_def
      cv_add_def cv_max_def cv_sub_def)

lemma cols_bias_channel [simp]: "cols (bias_channel upper sub add ch) = cols ch"
  by (simp add: bias_channel_def convertTo_8U_def convertTo_16S_def adjust_def cv_min_def
      cv_add_def cv_max_def cv_sub_def)

lemma zip3_map:
  "zip (map f xs) (zip (map g xs) (map k xs)) = map (\<lambda>x. (f x, g x, k x)) xs"
  by (induction xs) simp_all

lemma applyBias_eq:
  "applyBias c f = Inr \<lparr>rows = rows f, cols = cols f, data = map (bias_pixel c) (data f)\<rparr>"
proof -
  have "(\<lambda>x. (bias_value 179 (hSub c) (hAdd c) (fst x),
              bias_value 255 (sSub c) (sAdd c) (fst (snd x)),
              bias_value 255 (vSub c) (vAdd c) (snd (snd x)))) = bias_pixel c"
    by (rule ext) (simp add: bias_pixel_def split: prod.splits)
  then show ?thesis
    by (simp add: applyBias_def cv_split_def cv_merge_def same_size_def data_bias_channel
        zip3_map comp_def)
qed

text \<open>The value of one element after the bias stage, for scalars between 0 and 255.\<close>

lemma uint_bias_value:
  assumes "0 \<le> sub" "sub \<le> 255" "0 \<le> add" "add \<le> 255" "0 \<le> upper" "upper \<le> 255"
  shows "uint (bias_value upper sub add v) = min (max (uint v - sub) 0 + add) upper"
  using assms uint_uchar_bound [of v] uint_uchar_nonneg [of v]
  by (simp add: bias_value_def adjust_value_def Let_def sint_saturate_cast_short
      uint_saturate_cast_uchar min_def max_def)

section \<open>The bias stage clamps twice\<close>

text \<open>
  C1, as amended. For every pixel of every image and all trackbar positions in their
  domains, the bias stage returns, in each channel, \<open>min (max (v - sub) 0 + add) top\<close>
  with \<open>top\<close> 179 for channel 0 and 255 for channels 1 and 2: the difference is
  clamped at 0 before the addition, and the sum is clamped at the top of the domain. The
  result is the single clip \<open>spec_bias\<close> of \<open>v - sub + add\<close> whenever \<open>sub \<le> v\<close>, and
  it is the top of the domain whenever \<open>v - sub + add\<close> lies above it. The stage never
  throws, and the image keeps its size.
\<close>

theorem applyBias_clamps_twice:
  assumes dom: "bias_in_domain c"
    and i: "i < length (data f)"
    and px: "data f ! i = (h, s, v)"
  shows "\<exists>g h' s' v'. applyBias c f = Inr g \<and> same_size g f \<and>
           length (data g) = length (data f) \<and> data g ! i = (h', s', v') \<and>
           uint h' = min (max (uint h - hSub c) 0 + hAdd c) 179 \<and>
           uint s' = min (max (uint s - sSub c) 0 + sAdd c) 255 \<and>
           uint v' = min (max (uint v - vSub c) 0 + vAdd c) 255 \<and>
           (hSub c \<le> uint h \<longrightarrow> uint h' = spec_bias 179 (hSub c) (hAdd c) (uint h)) \<and>
           (sSub c \<le> uint s \<longrightarrow> uint s' = spec_bias 255 (sSub c) (sAdd c) (uint s)) \<and>
           (vSub c \<le> uint v \<longrightarrow> uint v' = spec_bias 255 (vSub c) (vAdd c) (uint v)) \<and>
           (179 < uint h - hSub c + hAdd c \<longrightarrow> uint h' = 179) \<and>
           (255 < uint s - sSub c + sAdd c \<longrightarrow> uint s' = 255) \<and>
           (255 < uint v - vSub c + vAdd c \<longrightarrow> uint v' = 255)"
proof -
  let ?g = "\<lparr>rows = rows f, cols = cols f, data = map (bias_pixel c) (data f)\<rparr>"
  let ?h = "bias_value 179 (hSub c) (hAdd c) h"
  let ?s = "bias_value 255 (sSub c) (sAdd c) s"
  let ?v = "bias_value 255 (vSub c) (vAdd c) v"
  have g: "applyBias c f = Inr ?g" by (rule applyBias_eq)
  have size: "same_size ?g f" "length (data ?g) = length (data f)"
    by (simp_all add: same_size_def)
  have at: "data ?g ! i = (?h, ?s, ?v)"
    using i px by (simp add: bias_pixel_def)
  have h: "uint ?h = min (max (uint h - hSub c) 0 + hAdd c) 179"
    using dom by (simp add: bias_in_domain_def uint_bias_value)
  have s: "uint ?s = min (max (uint s - sSub c) 0 + sAdd c) 255"
    using dom by (simp add: bias_in_domain_def uint_bias_value)
  have v: "uint ?v = min (max (uint v - vSub c) 0 + vAdd c) 255"
    using dom by (simp add: bias_in_domain_def uint_bias_value)
  have hs: "hSub c \<le> uint h \<longrightarrow> uint ?h = spec_bias 179 (hSub c) (hAdd c) (uint h)"
    using dom unfolding h by (auto simp: bias_in_domain_def spec_bias_def spec_clip_def)
  have ss: "sSub c \<le> uint s \<longrightarrow> uint ?s = spec_bias 255 (sSub c) (sAdd c) (uint s)"
    using dom unfolding s by (auto simp: bias_in_domain_def spec_bias_def spec_clip_def)
  have vs: "vSub c \<le> uint v \<longrightarrow> uint ?v = spec_bias 255 (vSub c) (vAdd c) (uint v)"
    using dom unfolding v by (auto simp: bias_in_domain_def spec_bias_def spec_clip_def)
  have ht: "179 < uint h - hSub c + hAdd c \<longrightarrow> uint ?h = 179"
    unfolding h by auto
  have st: "255 < uint s - sSub c + sAdd c \<longrightarrow> uint ?s = 255"
    unfolding s by auto
  have vt: "255 < uint v - vSub c + vAdd c \<longrightarrow> uint ?v = 255"
    unfolding v by auto
  from g size at h s v hs ss vs ht st vt show ?thesis by blast
qed

theorem applyBias_clamps_twice_witness:
  "\<exists>g h' s' v'.
     applyBias (initial_controls\<lparr>hSub := 20, hAdd := 5, sSub := 20, sAdd := 5, vAdd := 100\<rparr>)
       \<lparr>rows = 1, cols = 1, data = [(10, 30, 200)]\<rparr> = Inr g \<and>
     data g ! 0 = (h', s', v') \<and> uint h' = 5 \<and> uint s' = 15 \<and> uint v' = 255"
  using applyBias_clamps_twice [of "initial_controls\<lparr>hSub := 20, hAdd := 5, sSub := 20, sAdd := 5, vAdd := 100\<rparr>"
      0 "\<lparr>rows = 1, cols = 1, data = [(10, 30, 200)]\<rparr>" 10 30 200]
  by (simp add: bias_in_domain_def initial_controls_def) blast

text \<open>
  C1 as stated fails: with \<open>sub = 20\<close> and \<open>add = 5\<close> on the saturation channel, the
  value 10 becomes 5 (\<open>max (10 - 20) 0 + 5\<close>), while one clip of \<open>10 - 20 + 5 = - 5\<close>
  gives 0.
\<close>

theorem bias_single_clip_counterexample:
  "applyBias (initial_controls\<lparr>sSub := 20, sAdd := 5\<rparr>) \<lparr>rows = 1, cols = 1, data = [(0, 10, 0)]\<rparr>
     = Inr \<lparr>rows = 1, cols = 1, data = [(0, 5, 0)]\<rparr> \<and>
   spec_bias 255 20 5 (uint (10 :: uchar)) = 0"
  by (simp add: applyBias_eq bias_pixel_def bias_value_def adjust_value_def
      saturate_cast_short_def saturate_cast_uchar_def initial_controls_def
      spec_bias_def spec_clip_def)

section \<open>Monotonicity of the bias stage\<close>

text \<open>
  C5. Take one image and two settings of the trackbars in their domains. In each
  channel of each pixel: with the same \<open>sub\<close>, a larger \<open>add\<close> never gives a smaller
  result; with the same \<open>add\<close>, a larger \<open>sub\<close> never gives a larger result.
\<close>

theorem applyBias_monotone:
  assumes c: "bias_in_domain c" and c': "bias_in_domain c'"
    and i: "i < length (data f)"
    and g: "applyBias c f = Inr g" and g': "applyBias c' f = Inr g'"
    and at: "data g ! i = (h, s, v)" and at': "data g' ! i = (h', s', v')"
  shows "(hSub c' = hSub c \<and> hAdd c \<le> hAdd c' \<longrightarrow> h \<le> h') \<and>
         (sSub c' = sSub c \<and> sAdd c \<le> sAdd c' \<longrightarrow> s \<le> s') \<and>
         (vSub c' = vSub c \<and> vAdd c \<le> vAdd c' \<longrightarrow> v \<le> v') \<and>
         (hAdd c' = hAdd c \<and> hSub c \<le> hSub c' \<longrightarrow> h' \<le> h) \<and>
         (sAdd c' = sAdd c \<and> sSub c \<le> sSub c' \<longrightarrow> s' \<le> s) \<and>
         (vAdd c' = vAdd c \<and> vSub c \<le> vSub c' \<longrightarrow> v' \<le> v)"
proof -
  obtain h0 s0 v0 where px: "data f ! i = (h0, s0, v0)"
    by (cases "data f ! i") auto
  have "data g = map (bias_pixel c) (data f)" "data g' = map (bias_pixel c') (data f)"
    using g g' by (auto simp: applyBias_eq)
  then have eqs:
    "h = bias_value 179 (hSub c) (hAdd c) h0" "h' = bias_value 179 (hSub c') (hAdd c') h0"
    "s = bias_value 255 (sSub c) (sAdd c) s0" "s' = bias_value 255 (sSub c') (sAdd c') s0"
    "v = bias_value 255 (vSub c) (vAdd c) v0" "v' = bias_value 255 (vSub c') (vAdd c') v0"
    using i px at at' by (simp_all add: bias_pixel_def)
  have u:
    "uint h = min (max (uint h0 - hSub c) 0 + hAdd c) 179"
    "uint h' = min (max (uint h0 - hSub c') 0 + hAdd c') 179"
    "uint s = min (max (uint s0 - sSub c) 0 + sAdd c) 255"
    "uint s' = min (max (uint s0 - sSub c') 0 + sAdd c') 255"
    "uint v = min (max (uint v0 - vSub c) 0 + vAdd c) 255"
    "uint v' = min (max (uint v0 - vSub c') 0 + vAdd c') 255"
    using c c' unfolding eqs by (simp_all add: bias_in_domain_def uint_bias_value)
  show ?thesis
    unfolding word_le_def u by auto
qed

theorem applyBias_monotone_witness:
  "applyBias (initial_controls\<lparr>sSub := 20, sAdd := 5\<rparr>) \<lparr>rows = 1, cols = 1, data = [(90, 10, 250)]\<rparr>
     = Inr \<lparr>rows = 1, cols = 1, data = [(90, 5, 250)]\<rparr> \<and>
   applyBias (initial_controls\<lparr>sSub := 20, sAdd := 7\<rparr>) \<lparr>rows = 1, cols = 1, data = [(90, 10, 250)]\<rparr>
     = Inr \<lparr>rows = 1, cols = 1, data = [(90, 7, 250)]\<rparr> \<and>
   (5 :: uchar) \<le> 7"
proof -
  let ?c = "initial_controls\<lparr>sSub := 20, sAdd := 5\<rparr>"
  let ?c' = "initial_controls\<lparr>sSub := 20, sAdd := 7\<rparr>"
  let ?f = "\<lparr>rows = 1, cols = 1, data = [(90, 10, 250)]\<rparr> :: px3 Mat"
  have g: "applyBias ?c ?f = Inr \<lparr>rows = 1, cols = 1, data = [(90, 5, 250)]\<rparr>"
    by (simp add: applyBias_eq bias_pixel_def bias_value_def adjust_value_def
        saturate_cast_short_def saturate_cast_uchar_def initial_controls_def)
  have g': "applyBias ?c' ?f = Inr \<lparr>rows = 1, cols = 1, data = [(90, 7, 250)]\<rparr>"
    by (simp add: applyBias_eq bias_pixel_def bias_value_def adjust_value_def
        saturate_cast_short_def saturate_cast_uchar_def initial_controls_def)
  have "bias_in_domain ?c" "bias_in_domain ?c'"
    by (simp_all add: bias_in_domain_def initial_controls_def)
  from applyBias_monotone [OF this _ g g', of 0 90 5 250 90 7 250]
  have "(5 :: uchar) \<le> 7" by simp
  with g g' show ?thesis by simp
qed

section \<open>No overflow in the widened type\<close>

text \<open>
  C6. For every element \<open>x\<close> of an 8-bit channel and \<open>sub\<close>, \<open>add\<close> in the channel's
  domain, every 16-bit value that lines 121 to 126 store is the exact integer result:
  \<open>x\<close>, \<open>x - sub\<close>, \<open>max (x - sub) 0\<close>, \<open>max (x - sub) 0 + add\<close> (which may exceed 255)
  and its minimum with the top of the domain all lie in the range of \<^verbatim>\<open>short\<close>, so no
  saturating store changes a value. The last value lies between 0 and the top of the
  domain, and the narrowing of line 129 returns it unchanged.
\<close>

theorem bias_never_overflows:
  assumes i: "i < length (data ch)"
    and up: "upper = 179 \<or> upper = 255"
    and dom: "0 \<le> sub" "sub \<le> upper" "0 \<le> add" "add \<le> upper"
  shows "let x = uint (data ch ! i);
             w = convertTo_16S ch;
             a = cv_sub w sub;
             b = cv_max a 0;
             c = cv_add b add;
             d = cv_min c upper
         in sint (data w ! i) = x \<and>
            sint (data a ! i) = x - sub \<and> - 32768 \<le> x - sub \<and> x - sub \<le> 32767 \<and>
            sint (data b ! i) = max (x - sub) 0 \<and>
            sint (data c ! i) = max (x - sub) 0 + add \<and>
            - 32768 \<le> max (x - sub) 0 + add \<and> max (x - sub) 0 + add \<le> 32767 \<and>
            sint (data d ! i) = min (max (x - sub) 0 + add) upper \<and>
            0 \<le> sint (data d ! i) \<and> sint (data d ! i) \<le> upper \<and>
            adjust upper sub add w = d \<and>
            uint (data (convertTo_8U d) ! i) = sint (data d ! i) \<and>
            bias_channel upper sub add ch = convertTo_8U d"
proof -
  define x where "x = uint (data ch ! i)"
  define w where "w = convertTo_16S ch"
  define a where "a = cv_sub w sub"
  define b where "b = cv_max a 0"
  define c where "c = cv_add b add"
  define d where "d = cv_min c upper"
  have x: "0 \<le> x" "x \<le> 255"
    using uint_uchar_bound [of "data ch ! i"] by (simp_all add: x_def)
  have bounds: "- 32768 \<le> x - sub" "x - sub \<le> 32767"
    "- 32768 \<le> max (x - sub) 0 + add" "max (x - sub) 0 + add \<le> 32767"
    using x up dom by auto
  have r: "0 \<le> min (max (x - sub) 0 + add) upper" "min (max (x - sub) 0 + add) upper \<le> upper"
    "upper \<le> 255"
    using up dom by auto
  have wi: "sint (data w ! i) = x"
    using i by (simp add: w_def data_convertTo_16S x_def widened_value)
  have ai: "sint (data a ! i) = x - sub"
    using i bounds wi by (simp add: a_def data_cv_sub w_def data_convertTo_16S
        sint_saturate_cast_short_id)
  have il: "i < length (data a)" "i < length (data b)" "i < length (data c)"
    "i < length (data d)"
    using i by (simp_all add: a_def b_def c_def d_def w_def data_cv_sub data_cv_max data_cv_add
        data_cv_min data_convertTo_16S)
  have bi: "sint (data b ! i) = max (x - sub) 0"
    using il(1) ai by (simp add: b_def data_cv_max sint_saturate_cast_short_id max_def)
  have ci: "sint (data c ! i) = max (x - sub) 0 + add"
    using il(2) bi bounds by (simp add: c_def data_cv_add sint_saturate_cast_short_id)
  have u: "sint (saturate_cast_short upper) = upper"
    using up by (auto simp: sint_saturate_cast_short_id)
  have di: "sint (data d ! i) = min (max (x - sub) 0 + add) upper"
    using il(3) ci u by (simp add: d_def data_cv_min min_def)
  have ni: "uint (data (convertTo_8U d) ! i) = sint (data d ! i)"
    using il(4) r di by (simp add: data_convertTo_8U uint_saturate_cast_uchar_id)
  have adj: "d = adjust upper sub add w"
    by (simp add: d_def c_def b_def a_def adjust_def)
  have bc: "convertTo_8U d = bias_channel upper sub add ch"
    by (simp add: adj bias_channel_def w_def)
  have "sint (data w ! i) = x \<and>
        sint (data a ! i) = x - sub \<and> - 32768 \<le> x - sub \<and> x - sub \<le> 32767 \<and>
        sint (data b ! i) = max (x - sub) 0 \<and>
        sint (data c ! i) = max (x - sub) 0 + add \<and>
        - 32768 \<le> max (x - sub) 0 + add \<and> max (x - sub) 0 + add \<le> 32767 \<and>
        sint (data d ! i) = min (max (x - sub) 0 + add) upper \<and>
        0 \<le> sint (data d ! i) \<and> sint (data d ! i) \<le> upper \<and>
        adjust upper sub add w = d \<and>
        uint (data (convertTo_8U d) ! i) = sint (data d ! i) \<and>
        bias_channel upper sub add ch = convertTo_8U d"
    using wi ai bounds bi ci di r(1,2) adj ni bc by simp
  then show ?thesis
    unfolding Let_def x_def w_def a_def b_def c_def d_def .
qed

theorem bias_never_overflows_witness:
  "sint (data (cv_add (cv_max (cv_sub (convertTo_16S \<lparr>rows = 1, cols = 1, data = [200]\<rparr>) 10) 0)
                 100) ! 0) = 290 \<and>
   uint (data (bias_channel 255 10 100 \<lparr>rows = 1, cols = 1, data = [200]\<rparr>) ! 0) = 255"
  using bias_never_overflows [of 0 "\<lparr>rows = 1, cols = 1, data = [200]\<rparr>" 255 10 100]
  by (simp add: Let_def)


section \<open>Zero bias\<close>

lemma bias_value_zero:
  assumes "uint v \<le> upper" "upper \<le> 255"
  shows "bias_value upper 0 0 v = v"
proof -
  have "0 \<le> upper" using assms(1) uint_ge_0 [of v] by linarith
  then have "uint (bias_value upper 0 0 v) = min (max (uint v) 0 + 0) upper"
    using assms(2) uint_bias_value [of 0 0 upper v] by simp
  then have "uint (bias_value upper 0 0 v) = uint v"
    using assms(1) by simp
  then show ?thesis by (rule word_uint_eqI)
qed

text \<open>
  C9. With \<open>add = 0\<close> and \<open>sub = 0\<close> on every channel, the bias stage returns every
  image of the inspection space (first channel at most 179) unchanged, pixel by pixel
  and channel by channel, and does not throw.
\<close>

theorem applyBias_zero_identity:
  assumes zero: "hAdd c = 0" "hSub c = 0" "sAdd c = 0" "sSub c = 0" "vAdd c = 0" "vSub c = 0"
    and hue: "\<forall>p \<in> set (data f). hue_in_domain p"
  shows "applyBias c f = Inr f"
proof -
  have "bias_pixel c p = p" if "p \<in> set (data f)" for p
  proof -
    obtain h s v where p: "p = (h, s, v)" by (cases p) auto
    have "uint h \<le> 179" using hue that by (auto simp: hue_in_domain_def p)
    then show ?thesis
      using uint_uchar_bound [of s] uint_uchar_bound [of v]
      by (simp add: p bias_pixel_def zero bias_value_zero)
  qed
  then have "map (bias_pixel c) (data f) = data f"
    by (simp add: map_idI)
  then show ?thesis by (simp add: applyBias_eq)
qed

theorem applyBias_zero_identity_witness:
  "applyBias initial_controls \<lparr>rows = 1, cols = 2, data = [(179, 255, 0), (90, 7, 200)]\<rparr>
     = Inr \<lparr>rows = 1, cols = 2, data = [(179, 255, 0), (90, 7, 200)]\<rparr>"
  using applyBias_zero_identity [of initial_controls
      "\<lparr>rows = 1, cols = 2, data = [(179, 255, 0), (90, 7, 200)]\<rparr>"]
  by (simp add: initial_controls_def hue_in_domain_def)

section \<open>The mask\<close>

lemma map_constant:
  "(\<And>x. x \<in> set xs \<Longrightarrow> f x = k) \<Longrightarrow> map f xs = replicate (length xs) k"
  by (induction xs) simp_all

lemma uint_bias_value_le:
  assumes "0 \<le> upper" "upper \<le> 255"
  shows "uint (bias_value upper sub add v) \<le> upper"
proof -
  have u: "sint (saturate_cast_short upper) = upper"
    using assms by (simp add: sint_saturate_cast_short_id)
  have "sint (adjust_value upper sub add x) \<le> upper" for x
    by (simp add: adjust_value_def Let_def u)
  from this [of "saturate_cast_short (uint v)"] show ?thesis
    using assms by (auto simp: bias_value_def uint_saturate_cast_uchar)
qed

lemma computeMask_eq:
  "computeMask c f = \<lparr>rows = rows f, cols = cols f, data = map (mask_value c) (data f)\<rparr>"
proof -
  have "(\<lambda>(p0, p1, p2).
           if minH c \<le> uint p0 \<and> uint p0 \<le> maxH c \<and>
              minS c \<le> uint p1 \<and> uint p1 \<le> maxS c \<and>
              minV c \<le> uint p2 \<and> uint p2 \<le> maxV c
           then 255 else 0) = mask_value c"
    by (rule ext) (simp add: mask_value_def)
  then show ?thesis
    by (simp add: computeMask_def inRange_def Mat_map_def)
qed

text \<open>
  C4. For every image and every setting of the six range trackbars, the mask has the
  size of the image; its element at a pixel is 255 exactly when each of the three
  channels lies between its own two bounds, both included, and it is 0 otherwise. When
  some channel has \<open>max < min\<close> the mask is 0 everywhere. With \<open>min = 0\<close> and \<open>max\<close>
  the top of the domain on every channel, the mask is 255 everywhere on an image of the
  inspection space, and so on every image that the bias stage returns.
\<close>

theorem computeMask_iff:
  assumes i: "i < length (data f)" and px: "data f ! i = (h, s, v)"
  shows "same_size (computeMask c f) f \<and>
         length (data (computeMask c f)) = length (data f) \<and>
         (data (computeMask c f) ! i = 255 \<longleftrightarrow>
            minH c \<le> uint h \<and> uint h \<le> maxH c \<and>
            minS c \<le> uint s \<and> uint s \<le> maxS c \<and>
            minV c \<le> uint v \<and> uint v \<le> maxV c) \<and>
         (data (computeMask c f) ! i \<noteq> 255 \<longrightarrow> data (computeMask c f) ! i = 0) \<and>
         (maxH c < minH c \<or> maxS c < minS c \<or> maxV c < minV c \<longrightarrow>
            data (computeMask c f) = replicate (length (data f)) 0) \<and>
         (minH c = 0 \<and> maxH c = 179 \<and> minS c = 0 \<and> maxS c = 255 \<and>
          minV c = 0 \<and> maxV c = 255 \<and> (\<forall>p \<in> set (data f). hue_in_domain p) \<longrightarrow>
            data (computeMask c f) = replicate (length (data f)) 255) \<and>
         (minH c = 0 \<and> maxH c = 179 \<and> minS c = 0 \<and> maxS c = 255 \<and>
          minV c = 0 \<and> maxV c = 255 \<and> (\<exists>b f0. applyBias b f0 = Inr f) \<longrightarrow>
            data (computeMask c f) = replicate (length (data f)) 255)"
proof -
  have size: "same_size (computeMask c f) f" "length (data (computeMask c f)) = length (data f)"
    by (simp_all add: computeMask_eq same_size_def)
  have at: "data (computeMask c f) ! i = mask_value c (h, s, v)"
    using i px by (simp add: computeMask_eq)
  have iff: "data (computeMask c f) ! i = 255 \<longleftrightarrow>
            minH c \<le> uint h \<and> uint h \<le> maxH c \<and>
            minS c \<le> uint s \<and> uint s \<le> maxS c \<and>
            minV c \<le> uint v \<and> uint v \<le> maxV c"
    unfolding at by (simp add: mask_value_def)
  have other: "data (computeMask c f) ! i \<noteq> 255 \<longrightarrow> data (computeMask c f) ! i = 0"
    unfolding at by (simp add: mask_value_def)
  have empty: "data (computeMask c f) = replicate (length (data f)) 0"
    if "maxH c < minH c \<or> maxS c < minS c \<or> maxV c < minV c"
  proof -
    have "mask_value c p = 0" for p
      using that by (cases p) (auto simp: mask_value_def)
    then show ?thesis by (simp add: computeMask_eq map_constant)
  qed
  have wide: "data (computeMask c f) = replicate (length (data f)) 255"
    if w: "minH c = 0" "maxH c = 179" "minS c = 0" "maxS c = 255" "minV c = 0" "maxV c = 255"
      and hue: "\<forall>p \<in> set (data f). hue_in_domain p"
  proof -
    have "mask_value c p = 255" if "p \<in> set (data f)" for p
    proof -
      obtain p0 p1 p2 where p: "p = (p0, p1, p2)" by (cases p) auto
      have "uint p0 \<le> 179" using hue that by (auto simp: hue_in_domain_def p)
      then show ?thesis
        using uint_uchar_bound [of p1] uint_uchar_bound [of p2]
        by (simp add: p mask_value_def w)
    qed
    then show ?thesis by (simp add: computeMask_eq map_constant)
  qed
  have biased: "\<forall>p \<in> set (data f). hue_in_domain p" if "\<exists>b f0. applyBias b f0 = Inr f"
  proof -
    from that obtain b f0 where "applyBias b f0 = Inr f" by blast
    then have "data f = map (bias_pixel b) (data f0)"
      by (auto simp: applyBias_eq)
    moreover have "hue_in_domain (bias_pixel b q)" for q
      by (cases q) (simp add: bias_pixel_def hue_in_domain_def uint_bias_value_le)
    ultimately show ?thesis by auto
  qed
  from size iff other empty wide biased show ?thesis by blast
qed

theorem computeMask_iff_witness:
  "data (computeMask (initial_controls\<lparr>minH := 0, maxH := 0\<rparr>)
           \<lparr>rows = 1, cols = 2, data = [(90, 10, 10), (0, 10, 10)]\<rparr>) ! 0 \<noteq> 255 \<and>
   data (computeMask (initial_controls\<lparr>minH := 0, maxH := 0\<rparr>)
           \<lparr>rows = 1, cols = 2, data = [(90, 10, 10), (0, 10, 10)]\<rparr>) ! 1 = 255 \<and>
   data (computeMask (initial_controls\<lparr>minS := 9, maxS := 8\<rparr>)
           \<lparr>rows = 1, cols = 2, data = [(90, 10, 10), (0, 10, 10)]\<rparr>) = [0, 0] \<and>
   data (computeMask initial_controls
           \<lparr>rows = 1, cols = 2, data = [(90, 10, 10), (0, 10, 10)]\<rparr>) = [255, 255]"
proof -
  let ?f = "\<lparr>rows = 1, cols = 2, data = [(90, 10, 10), (0, 10, 10)]\<rparr> :: px3 Mat"
  let ?hue0 = "initial_controls\<lparr>minH := 0, maxH := 0\<rparr>"
  let ?none = "initial_controls\<lparr>minS := 9, maxS := 8\<rparr>"
  have i0: "0 < length (data ?f)" and i1: "1 < length (data ?f)" by simp_all
  have p0: "data ?f ! 0 = (90, 10, 10)" and p1: "data ?f ! 1 = (0, 10, 10)" by simp_all
  from computeMask_iff [OF i0 p0, of ?hue0]
  have a: "data (computeMask ?hue0 ?f) ! 0 \<noteq> 255"
    by (simp add: initial_controls_def)
  from computeMask_iff [OF i1 p1, of ?hue0]
  have b: "data (computeMask ?hue0 ?f) ! 1 = 255"
    by (simp add: initial_controls_def)
  from computeMask_iff [OF i0 p0, of ?none]
  have c: "data (computeMask ?none ?f) = [0, 0]"
    by (simp add: initial_controls_def)
  from computeMask_iff [OF i0 p0, of initial_controls]
  have d: "data (computeMask initial_controls ?f) = [255, 255]"
    by (simp add: initial_controls_def hue_in_domain_def)
  from a b c d show ?thesis by simp
qed


section \<open>The masked copy\<close>

lemma composite_eq:
  assumes "same_size src msk"
  shows "composite src msk =
           Inr \<lparr>rows = rows src, cols = cols src,
                data = map (\<lambda>(p, q, m). if m \<noteq> 0 then p else q)
                         (zip (data src)
                            (zip (replicate (length (data src)) (0, 0, 0)) (data msk)))\<rparr>"
proof -
  have "(if same_size (empty_Mat :: px3 Mat) src \<and>
            length (data (empty_Mat :: px3 Mat)) = length (data src)
         then data (empty_Mat :: px3 Mat)
         else replicate (length (data src)) (0, 0, 0))
        = replicate (length (data src)) (0, 0, 0)"
    by (auto simp: empty_Mat_def)
  then show ?thesis
    using assms by (simp add: composite_def copyTo_def Let_def)
qed

text \<open>
  C7. For every source image and mask of equal dimensions, the composite of lines 143
  and 144 does not throw and has the dimensions of the source; each of its pixels is the
  source pixel where the mask element is 255 and the zero pixel where the mask element
  is 0.
\<close>

theorem composite_selects:
  assumes size: "same_size src msk" and src: "well_formed src" and msk: "well_formed msk"
  shows "\<exists>out. composite src msk = Inr out \<and> same_size out src \<and> well_formed out \<and>
           (\<forall>i < length (data src).
              (data msk ! i = 255 \<longrightarrow> data out ! i = data src ! i) \<and>
              (data msk ! i = 0 \<longrightarrow> data out ! i = (0, 0, 0)))"
proof -
  let ?out = "\<lparr>rows = rows src, cols = cols src,
                data = map (\<lambda>(p, q, m). if m \<noteq> 0 then p else q)
                         (zip (data src)
                            (zip (replicate (length (data src)) (0, 0, 0)) (data msk)))\<rparr>"
  have len: "length (data msk) = length (data src)"
    using size src msk by (simp add: same_size_def well_formed_def)
  have out: "composite src msk = Inr ?out"
    using size by (rule composite_eq)
  have wf: "same_size ?out src" "well_formed ?out"
    using src len by (simp_all add: same_size_def well_formed_def)
  have at: "data ?out ! i = (if data msk ! i \<noteq> 0 then data src ! i else (0, 0, 0))"
    if "i < length (data src)" for i
    using that len by simp
  have "(data msk ! i = 255 \<longrightarrow> data ?out ! i = data src ! i) \<and>
        (data msk ! i = 0 \<longrightarrow> data ?out ! i = (0, 0, 0))"
    if "i < length (data src)" for i
    unfolding at [OF that] by simp
  with out wf show ?thesis by blast
qed

theorem composite_selects_witness:
  "composite \<lparr>rows = 1, cols = 2, data = [(1, 2, 3), (4, 5, 6)]\<rparr>
             \<lparr>rows = 1, cols = 2, data = [255, 0]\<rparr>
     = Inr \<lparr>rows = 1, cols = 2, data = [(1, 2, 3), (0, 0, 0)]\<rparr>"
proof -
  let ?src = "\<lparr>rows = 1, cols = 2, data = [(1, 2, 3), (4, 5, 6)]\<rparr> :: px3 Mat"
  let ?msk = "\<lparr>rows = 1, cols = 2, data = [255, 0]\<rparr> :: uchar Mat"
  have "same_size ?src ?msk" "well_formed ?src" "well_formed ?msk"
    by (simp_all add: same_size_def well_formed_def)
  from composite_selects [OF this] obtain out where
    out: "composite ?src ?msk = Inr out" and size: "same_size out ?src" "well_formed out"
    and at: "\<forall>i < length (data ?src).
              (data ?msk ! i = 255 \<longrightarrow> data out ! i = data ?src ! i) \<and>
              (data ?msk ! i = 0 \<longrightarrow> data out ! i = (0, 0, 0))"
    by blast
  from at have "data out ! 0 = (1, 2, 3)" "data out ! 1 = (0, 0, 0)"
    by simp_all
  moreover from size have "rows out = 1" "cols out = 2" "length (data out) = 2"
    by (simp_all add: same_size_def well_formed_def)
  ultimately have "out = \<lparr>rows = 1, cols = 2, data = [(1, 2, 3), (0, 0, 0)]\<rparr>"
    by (cases out) (auto simp: length_Suc_conv numeral_2_eq_2)
  with out show ?thesis by simp
qed

section \<open>Which byte of a pixel is ignored\<close>

lemma cvtColor_BGR2HSV_cong:
  assumes "list_all2 (\<lambda>p q. fst p = fst q \<and> fst (snd p) = fst (snd q) \<and>
                              fst (snd (snd p)) = fst (snd (snd q))) xs ys"
  shows "map (\<lambda>(c0, c1, c2, c3). RGB2HSV_b (uint c0) (uint c1) (uint c2)) xs =
         map (\<lambda>(c0, c1, c2, c3). RGB2HSV_b (uint c0) (uint c1) (uint c2)) ys"
  using assms by (induction rule: list_all2_induct) (auto split: prod.splits)

text \<open>
  C3, as amended. The mask and both displayed images are independent of the fourth of
  the four interleaved bytes of each pixel: two images of one size whose pixels agree
  on their first three bytes give the same biased image, the same mask and the same
  two views (or the same exception).
\<close>

theorem process_ignores_fourth_byte:
  assumes "same_size f f'" and "list_all2 same_colour_bytes (data f) (data f')"
  shows "mask_stage c f = mask_stage c f' \<and> process hsv2bgr c f = process hsv2bgr c f'"
proof -
  have "list_all2 (\<lambda>p q. fst p = fst q \<and> fst (snd p) = fst (snd q) \<and>
                          fst (snd (snd p)) = fst (snd (snd q))) (data f) (data f')"
    using assms(2) by (simp add: same_colour_bytes_def [abs_def])
  then have "cvtColor_BGR2HSV f = cvtColor_BGR2HSV f'"
    using assms(1) by (simp add: cvtColor_BGR2HSV_def Mat_map_def same_size_def
        cvtColor_BGR2HSV_cong)
  then show ?thesis
    by (simp add: mask_stage_def process_def)
qed

theorem process_ignores_fourth_byte_witness:
  "mask_stage (initial_controls\<lparr>minV := 1\<rparr>) \<lparr>rows = 1, cols = 1, data = [(255, 0, 0, 0)]\<rparr>
     = mask_stage (initial_controls\<lparr>minV := 1\<rparr>) \<lparr>rows = 1, cols = 1, data = [(255, 0, 0, 77)]\<rparr>"
  using process_ignores_fourth_byte [of "\<lparr>rows = 1, cols = 1, data = [(255, 0, 0, 0)]\<rparr>"
      "\<lparr>rows = 1, cols = 1, data = [(255, 0, 0, 77)]\<rparr>" "initial_controls\<lparr>minV := 1\<rparr>"]
  by (simp add: same_size_def same_colour_bytes_def)

text \<open>The conversion of line 115 at black and at a pixel whose first byte alone is 255.\<close>

lemma RGB2HSV_b_black: "RGB2HSV_b 0 0 0 = (0, 0, 0)"
  by (simp add: RGB2HSV_b_def sdiv_table_def hdiv_table180_def saturate_cast_uchar_def)

lemma RGB2HSV_b_blue: "RGB2HSV_b 255 0 0 = (120, 255, 255)"
  by (simp add: RGB2HSV_b_def sdiv_table_def hdiv_table180_def cvRound_div_def
      saturate_cast_uchar_def)

text \<open>
  C3 as stated fails: the first byte of a pixel is its blue component. Two one-pixel
  images that differ in that byte only, \<open>(0, 0, 0, 0)\<close> and \<open>(255, 0, 0, 0)\<close>, give the
  masks 0 and 255 when the trackbar \<^verbatim>\<open>Val (min)\<close> stands at 1.
\<close>

theorem first_byte_counterexample:
  "mask_stage (initial_controls\<lparr>minV := 1\<rparr>) \<lparr>rows = 1, cols = 1, data = [(0, 0, 0, 0)]\<rparr>
     = Inr (\<lparr>rows = 1, cols = 1, data = [(0, 0, 0)]\<rparr>, \<lparr>rows = 1, cols = 1, data = [0]\<rparr>) \<and>
   mask_stage (initial_controls\<lparr>minV := 1\<rparr>) \<lparr>rows = 1, cols = 1, data = [(255, 0, 0, 0)]\<rparr>
     = Inr (\<lparr>rows = 1, cols = 1, data = [(120, 255, 255)]\<rparr>,
            \<lparr>rows = 1, cols = 1, data = [255]\<rparr>)"
  by (simp add: mask_stage_def cvtColor_BGR2HSV_def RGB2HSV_b_black RGB2HSV_b_blue
      applyBias_eq bias_pixel_def bias_value_def adjust_value_def saturate_cast_short_def
      saturate_cast_uchar_def computeMask_eq mask_value_def initial_controls_def)


section \<open>The converted image lies in the inspection space\<close>

text \<open>
  The first channel that line 115 produces is at most 179 for every pixel, so every
  image that reaches the bias stage is an image of the inspection space.
\<close>

lemma zdiv_mult_self_le_aux: "0 < (k :: int) \<Longrightarrow> k * (n div k) \<le> n"
  using mult_div_mod_eq [of k n] pos_mod_sign [of k n] by linarith

lemma hdiv_table180_bounds:
  assumes "0 \<le> d" "d \<le> 255"
  shows "0 \<le> hdiv_table180 d" "2 * (d * hdiv_table180 d) \<le> 246015"
proof -
  show "0 \<le> hdiv_table180 d"
    using assms by (simp add: hdiv_table180_def cvRound_div_def pos_imp_zdiv_nonneg_iff)
  show "2 * (d * hdiv_table180 d) \<le> 246015"
  proof (cases "d = 0")
    case True
    then show ?thesis by simp
  next
    case False
    then have d: "0 < d" using assms by simp
    have "(12 * d) * ((1474560 + 6 * d) div (12 * d)) \<le> 1474560 + 6 * d"
      using d by (intro zdiv_mult_self_le_aux) simp
    then have "12 * (d * hdiv_table180 d) \<le> 1474560 + 6 * d"
      using False by (simp add: hdiv_table180_def cvRound_div_def algebra_simps)
    then show ?thesis using assms by linarith
  qed
qed

lemma RGB2HSV_b_hue:
  assumes "0 \<le> b" "b \<le> 255" "0 \<le> g" "g \<le> 255" "0 \<le> r" "r \<le> 255"
  shows "hue_in_domain (RGB2HSV_b b g r)"
proof -
  define v where "v = max (max b g) r"
  define vmin where "vmin = min (min b g) r"
  define d where "d = v - vmin"
  define T where "T = hdiv_table180 d"
  define h0 where "h0 = (if v = r then g - b else if v = g then b - r + 2 * d else r - g + 4 * d)"
  define h1 where "h1 = (h0 * T + 2048) div 4096"
  define h where "h = (if h1 < 0 then h1 + 180 else h1)"
  have d: "0 \<le> d" "d \<le> 255"
    using assms by (auto simp: d_def v_def vmin_def)
  have T: "0 \<le> T" "2 * (d * T) \<le> 246015"
    using hdiv_table180_bounds [OF d] by (simp_all add: T_def)
  have h0: "- d \<le> h0" "h0 \<le> 5 * d"
    by (auto simp: h0_def d_def v_def vmin_def)
  have "h0 * T \<le> (5 * d) * T" "(- d) * T \<le> h0 * T"
    using h0 T(1) by (intro mult_right_mono; simp)+
  then have "h0 * T \<le> 615037" "- 123008 \<le> h0 * T"
    using T(2) by simp_all
  then have "h1 \<le> 150" "- 30 \<le> h1"
    unfolding h1_def by simp_all
  then have "0 \<le> h" "h \<le> 179"
    by (auto simp: h_def)
  then have "uint (saturate_cast_uchar h) \<le> 179"
    by (simp add: uint_saturate_cast_uchar)
  moreover have "fst (RGB2HSV_b b g r) = saturate_cast_uchar h"
    unfolding RGB2HSV_b_def Let_def h_def h1_def h0_def T_def d_def v_def vmin_def by simp
  ultimately show ?thesis
    by (simp add: hue_in_domain_def)
qed

lemma cvtColor_BGR2HSV_hue:
  "\<forall>p \<in> set (data (cvtColor_BGR2HSV img)). hue_in_domain p"
proof -
  have "hue_in_domain (RGB2HSV_b (uint c0) (uint c1) (uint c2))" for c0 c1 c2 :: uchar
    using uint_uchar_bound [of c0] uint_uchar_bound [of c1] uint_uchar_bound [of c2]
    by (intro RGB2HSV_b_hue) simp_all
  then show ?thesis
    by (auto simp: cvtColor_BGR2HSV_def)
qed

lemma zero_bias_on_converted_image:
  assumes "hAdd c = 0" "hSub c = 0" "sAdd c = 0" "sSub c = 0" "vAdd c = 0" "vSub c = 0"
  shows "applyBias c (cvtColor_BGR2HSV img) = Inr (cvtColor_BGR2HSV img)"
proof -
  have "bias_pixel c p = p" if "p \<in> set (data (cvtColor_BGR2HSV img))" for p
  proof -
    obtain h s v where p: "p = (h, s, v)" by (cases p) auto
    have "uint h \<le> 179"
      using cvtColor_BGR2HSV_hue [of img] that by (auto simp: hue_in_domain_def p)
    then show ?thesis
      using uint_uchar_bound [of s] uint_uchar_bound [of v]
      by (simp add: p bias_pixel_def assms bias_value_zero)
  qed
  then have "map (bias_pixel c) (data (cvtColor_BGR2HSV img)) = data (cvtColor_BGR2HSV img)"
    by (simp add: map_idI)
  then show ?thesis by (simp add: applyBias_eq)
qed

section \<open>Start-up\<close>

text \<open>
  C8. When \<open>name\<close>, \<open>width\<close> or \<open>height\<close> is missing from the command line,
  \<^verbatim>\<open>main\<close> writes the usage text to \<^verbatim>\<open>std::cerr\<close> and does nothing else: every event
  of the run is a line on \<^verbatim>\<open>std::cerr\<close>, so no shared memory is constructed, nothing
  is locked, no call of the loop is made and nothing is thrown. The process ends by
  returning from \<^verbatim>\<open>main\<close> (with \<open>retCode\<close> 1), whatever the attach would have
  answered and whatever the surroundings hold.
\<close>

theorem missing_argument_shows_usage:
  assumes "commandlineArguments ''name'' = None \<or> commandlineArguments ''width'' = None \<or>
           commandlineArguments ''height'' = None"
  shows "main hsv2bgr argv0 commandlineArguments valid ticks = (usage argv0, Some (Exit 1)) \<and>
         usage argv0 \<noteq> [] \<and>
         (\<forall>e \<in> set (fst (main hsv2bgr argv0 commandlineArguments valid ticks)).
            (\<exists>line. e = Cerr line) \<and> (\<forall>name. e \<noteq> New_SharedMemory name) \<and>
            e \<noteq> Lock \<and> e \<noteq> Throw \<and> \<not> in_loop e)"
proof -
  have m: "main hsv2bgr argv0 commandlineArguments valid ticks = (usage argv0, Some (Exit 1))"
    using assms by (auto simp: main_def split: option.splits)
  have u: "\<exists>line. e = Cerr line" if "e \<in> set (usage argv0)" for e
    using that by (auto simp: usage_def)
  have "(\<exists>line. e = Cerr line) \<and> (\<forall>name. e \<noteq> New_SharedMemory name) \<and>
        e \<noteq> Lock \<and> e \<noteq> Throw \<and> \<not> in_loop e" if "e \<in> set (usage argv0)" for e
    using u [OF that] by (auto simp: in_loop_def)
  then show ?thesis
    unfolding m by (simp add: usage_def)
qed

theorem missing_argument_shows_usage_witness:
  "\<forall>hsv2bgr valid ticks.
     main hsv2bgr ''opendlv-video-hsv-inspector''
       [''name'' \<mapsto> ''img.argb'', ''height'' \<mapsto> ''480''] valid ticks
     = (usage ''opendlv-video-hsv-inspector'', Some (Exit 1))"
  using missing_argument_shows_usage
    [of "[''name'' \<mapsto> ''img.argb'', ''height'' \<mapsto> ''480'']" _ "''opendlv-video-hsv-inspector''"]
  by simp

text \<open>
  C2, what the code does. When the three arguments are present, both numbers parse
  and \<^verbatim>\<open>sharedMemory->valid()\<close> is false, the only event of the run is the
  construction of the shared memory: the loop never starts. Line 154 then sets
  \<open>retCode\<close> to 0, outside the \<^verbatim>\<open>if\<close> of line 48, and the process exits with status 0.
\<close>

theorem failed_attach_exits_zero:
  assumes "commandlineArguments ''name'' = Some NAME"
    and "commandlineArguments ''width'' = Some width_arg"
    and "commandlineArguments ''height'' = Some height_arg"
    and "stoi width_arg = Some w" and "stoi height_arg = Some h"
  shows "main hsv2bgr argv0 commandlineArguments False ticks
           = ([New_SharedMemory NAME], Some (Exit 0))"
  using assms by (simp add: main_def)

text \<open>\<^verbatim>\<open>std::stoi\<close> on the two numbers of the usage example.\<close>

lemma stoi_640: "stoi ''640'' = Some 640"
  by (simp add: stoi_def isspace_def isdigit_def digits_value_def)

lemma stoi_480: "stoi ''480'' = Some 480"
  by (simp add: stoi_def isspace_def isdigit_def digits_value_def)

theorem failed_attach_exits_zero_witness:
  "\<forall>hsv2bgr ticks.
     main hsv2bgr ''opendlv-video-hsv-inspector''
       [''name'' \<mapsto> ''img.argb'', ''width'' \<mapsto> ''640'', ''height'' \<mapsto> ''480''] False ticks
     = ([New_SharedMemory ''img.argb''], Some (Exit 0))"
  using failed_attach_exits_zero
    [of "[''name'' \<mapsto> ''img.argb'', ''width'' \<mapsto> ''640'', ''height'' \<mapsto> ''480'']"
      "''img.argb''" "''640''" "''480''" 640 480 _ "''opendlv-video-hsv-inspector''"]
  by (simp add: stoi_640 stoi_480)

section \<open>The lock\<close>

lemma held_after_append: "held_after held (xs @ ys) = held_after (held_after held xs) ys"
  by (induction held xs rule: held_after.induct) simp_all

lemma under_lock_append:
  "under_lock held (xs @ ys) = under_lock held xs @ under_lock (held_after held xs) ys"
  by (induction held xs rule: under_lock.induct) simp_all

lemma bias_calls_free: "under_lock False bias_calls = []" "held_after False bias_calls = False"
  "Lock \<notin> set bias_calls" "Unlock \<notin> set bias_calls"
  by (simp_all add: bias_calls_def numeral_3_eq_3)

lemma mask_calls_free: "under_lock False mask_calls = []" "held_after False mask_calls = False"
  "Lock \<notin> set mask_calls" "Unlock \<notin> set mask_calls"
  by (simp_all add: mask_calls_def)

lemma iteration_cases:
  "\<exists>work. fst (iteration hsv2bgr HEIGHT WIDTH t) = [Lock, Call ''cvarrToMat'', Unlock] @ work \<and>
     Lock \<notin> set work \<and> Unlock \<notin> set work \<and>
     under_lock False work = [] \<and> held_after False work = False \<and>
     set bias_calls \<subseteq> set work"
  by (auto simp: iteration_def Let_def bias_calls_free mask_calls_free under_lock_append
      held_after_append split: sum.splits cv_Exception.splits)

lemma iteration_lock:
  "under_lock False (fst (iteration hsv2bgr HEIGHT WIDTH t)) = [Call ''cvarrToMat'']"
  "held_after False (fst (iteration hsv2bgr HEIGHT WIDTH t)) = False"
  using iteration_cases [of hsv2bgr HEIGHT WIDTH t] by auto

lemma loop_lock:
  "set (under_lock False (fst (loop hsv2bgr HEIGHT WIDTH ticks))) \<subseteq> {Call ''cvarrToMat''} \<and>
   held_after False (fst (loop hsv2bgr HEIGHT WIDTH ticks)) = False"
proof (induction ticks)
  case Nil
  show ?case by simp
next
  case (Cons t ts)
  obtain evs ok where it: "iteration hsv2bgr HEIGHT WIDTH t = (evs, ok)"
    by (cases "iteration hsv2bgr HEIGHT WIDTH t") auto
  obtain rest r where lp: "loop hsv2bgr HEIGHT WIDTH ts = (rest, r)"
    by (cases "loop hsv2bgr HEIGHT WIDTH ts") auto
  have evs: "under_lock False evs = [Call ''cvarrToMat'']" "held_after False evs = False"
    using iteration_lock [of hsv2bgr HEIGHT WIDTH t] by (simp_all add: it)
  show ?case
    using Cons.IH evs by (cases ok) (simp_all add: it lp under_lock_append held_after_append)
qed

text \<open>
  C10. Every turn of the loop starts with \<^verbatim>\<open>lock()\<close>, \<^verbatim>\<open>cv::cvarrToMat\<close> (the header
  over the shared memory, no pixel copied) and \<^verbatim>\<open>unlock()\<close>; all the rest of the turn
  (colour conversion, bias, mask, masked copy, both displays, or the exception that
  ends it) comes after and neither locks nor unlocks. So the only event of a turn that
  happens while the lock is held is \<^verbatim>\<open>cv::cvarrToMat\<close>, the lock is free at every exit
  of a turn, and over any number of turns nothing else ever happens under the lock.
\<close>

theorem critical_section_minimal:
  "(\<exists>work. fst (iteration hsv2bgr HEIGHT WIDTH t) = [Lock, Call ''cvarrToMat'', Unlock] @ work \<and>
      Lock \<notin> set work \<and> Unlock \<notin> set work \<and> set bias_calls \<subseteq> set work) \<and>
   under_lock False (fst (iteration hsv2bgr HEIGHT WIDTH t)) = [Call ''cvarrToMat''] \<and>
   held_after False (fst (iteration hsv2bgr HEIGHT WIDTH t)) = False \<and>
   set (under_lock False (fst (loop hsv2bgr HEIGHT WIDTH ticks))) \<subseteq> {Call ''cvarrToMat''} \<and>
   held_after False (fst (loop hsv2bgr HEIGHT WIDTH ticks)) = False"
  using iteration_cases [of hsv2bgr HEIGHT WIDTH t] iteration_lock [of hsv2bgr HEIGHT WIDTH t]
    loop_lock [of hsv2bgr HEIGHT WIDTH ticks]
  by blast

theorem critical_section_minimal_witness:
  "\<forall>hsv2bgr.
     set (under_lock False (fst (loop hsv2bgr 1 1
       [\<lparr>key = - 1, sliders = initial_controls, pixels = [(255, 0, 0, 0)]\<rparr>,
        \<lparr>key = 0, sliders = initial_controls, pixels = [(255, 0, 0, 0)]\<rparr>])))
       \<subseteq> {Call ''cvarrToMat''} \<and>
     held_after False (fst (loop hsv2bgr 1 1
       [\<lparr>key = - 1, sliders = initial_controls, pixels = [(255, 0, 0, 0)]\<rparr>,
        \<lparr>key = 0, sliders = initial_controls, pixels = [(255, 0, 0, 0)]\<rparr>])) = False"
  using critical_section_minimal
    [of _ 1 1 "\<lparr>key = - 1, sliders = initial_controls, pixels = [(255, 0, 0, 0)]\<rparr>"
      "[\<lparr>key = - 1, sliders = initial_controls, pixels = [(255, 0, 0, 0)]\<rparr>,
        \<lparr>key = 0, sliders = initial_controls, pixels = [(255, 0, 0, 0)]\<rparr>]"]
  by blast

end
